theory Spec2Isabelle
  imports Complex_Main "HOL-Library.AList"
begin

section \<open>Values held by the filter store\<close>

text \<open>
  The client keeps the user's filter configuration in one store
  (\<^verbatim>\<open>stores/filterStore.ts\<close>, types in \<^verbatim>\<open>types/filters.ts\<close>). The store holds its
  weights in a plain object used as a dictionary, and the code reads it with
  \<^verbatim>\<open>rec[k]\<close>, which also finds what the object inherits. The model therefore follows
  the object semantics of the language and not only the declared types.

  The weight of a filter is a \<^verbatim>\<open>number\<close>: a finite value or the not-a-number value,
  through which \<^verbatim>\<open>Math.min\<close> and \<^verbatim>\<open>Math.max\<close> pass. The infinities are left out
  (the clamp sends them to 100 and to 0, as it does large finite values). The other
  numeric fields of the store (minimum score, population bounds, pagination) are kept
  as finite values of type \<^typ>\<open>real\<close>.
\<close>

datatype number = NaN | Num real

fun mathMin :: "number \<Rightarrow> number \<Rightarrow> number" where
  "mathMin (Num a) (Num b) = Num (min a b)"
| "mathMin _ _ = NaN"

fun mathMax :: "number \<Rightarrow> number \<Rightarrow> number" where
  "mathMax (Num a) (Num b) = Num (max a b)"
| "mathMax _ _ = NaN"

datatype prim = PStr string | PNum number | PBool bool

text \<open>
  A configuration object. The type \<^verbatim>\<open>WeightConfig\<close> declares the three fields
  \<^verbatim>\<open>id\<close>, \<^verbatim>\<open>weight\<close> and \<^verbatim>\<open>enabled\<close>; an object that the store builds by spreading
  something that is not a configuration can lack any of them, so each field is
  optional here, \<open>None\<close> for a field the object does not have. Spreading a string
  copies its characters as the properties \<^verbatim>\<open>0\<close>, \<^verbatim>\<open>1\<close>, ...; \<open>chars_wc\<close> keeps them
  (one \<^typ>\<open>char\<close> per code unit, which is exact for ASCII).
\<close>

record WeightConfig =
  id_wc :: "string option"
  weight :: "number option"
  enabled :: "bool option"
  chars_wc :: string

text \<open>
  What \<^verbatim>\<open>rec[k]\<close> can yield on a weights record: a configuration object, one of the
  functions every plain object inherits (named by the property it stands under), a
  primitive, or the root prototype object itself.
\<close>

datatype val = Cfg WeightConfig | Fn string | Prim prim | ObjectPrototype

text \<open>
  A weights record: its own enumerable properties in insertion order, the order in
  which \<^verbatim>\<open>Object.entries\<close> walks them (keys that are array indices are walked first
  by the engine; no statement below depends on the order), and its prototype:
  \<open>None\<close> for the root prototype that an object literal and a parsed JSON object
  have, \<open>Some p\<close> once an assignment to \<^verbatim>\<open>__proto__\<close> has replaced it by the plain
  object \<open>p\<close>.
\<close>

record WeightsRecord =
  own :: "(string \<times> val) list"
  proto :: "WeightConfig option"

definition emptyRecord :: WeightsRecord where
  "emptyRecord = \<lparr> own = [], proto = None \<rparr>"

definition emptyConfig :: WeightConfig where
  "emptyConfig = \<lparr> id_wc = None, weight = None, enabled = None, chars_wc = [] \<rparr>"

definition weightConfig :: "string \<Rightarrow> number \<Rightarrow> bool \<Rightarrow> val" where
  "weightConfig i w e = Cfg \<lparr> id_wc = Some i, weight = Some w, enabled = Some e, chars_wc = [] \<rparr>"

subsection \<open>Reading a property\<close>

text \<open>
  The properties of the root prototype: eleven functions, and the accessor
  \<^verbatim>\<open>__proto__\<close> whose getter yields the prototype of the object it is read on.
\<close>

definition inheritedNames :: "string list" where
  "inheritedNames =
     [''constructor'', ''__defineGetter__'', ''__defineSetter__'', ''hasOwnProperty'',
      ''__lookupGetter__'', ''__lookupSetter__'', ''isPrototypeOf'', ''propertyIsEnumerable'',
      ''toString'', ''valueOf'', ''toLocaleString'']"

definition fromObjectPrototype :: "WeightConfig option \<Rightarrow> string \<Rightarrow> val option" where
  "fromObjectPrototype receiverProto k =
     (if k \<in> set inheritedNames then Some (Fn k)
      else if k = ''__proto__''
        then Some (case receiverProto of None \<Rightarrow> ObjectPrototype | Some p \<Rightarrow> Cfg p)
      else None)"

text \<open>A key is an array index when it is the decimal numeral of a natural number.\<close>

definition digitOf :: "char \<Rightarrow> nat option" where
  "digitOf c =
     map_of [(CHR ''0'', 0), (CHR ''1'', 1), (CHR ''2'', 2), (CHR ''3'', 3), (CHR ''4'', 4),
             (CHR ''5'', 5), (CHR ''6'', 6), (CHR ''7'', 7), (CHR ''8'', 8), (CHR ''9'', 9)] c"

fun parseDigits :: "string \<Rightarrow> nat \<Rightarrow> nat option" where
  "parseDigits [] acc = Some acc"
| "parseDigits (c # cs) acc =
     (case digitOf c of None \<Rightarrow> None | Some d \<Rightarrow> parseDigits cs (10 * acc + d))"

definition arrayIndex :: "string \<Rightarrow> nat option" where
  "arrayIndex k =
     (case k of
        [] \<Rightarrow> None
      | c # cs \<Rightarrow> if c = CHR ''0'' \<and> cs \<noteq> [] then None else parseDigits k 0)"

definition configGet :: "WeightConfig \<Rightarrow> string \<Rightarrow> prim option" where
  "configGet c k =
     (if k = ''id'' then map_option PStr (id_wc c)
      else if k = ''weight'' then map_option PNum (weight c)
      else if k = ''enabled'' then map_option PBool (enabled c)
      else (case arrayIndex k of
              None \<Rightarrow> None
            | Some i \<Rightarrow> if i < length (chars_wc c) then Some (PStr [chars_wc c ! i]) else None))"

text \<open>
  \<^verbatim>\<open>rec[k]\<close>: an own property first, then the replaced prototype's own fields if
  there is one, then the root prototype; \<open>None\<close> is \<^verbatim>\<open>undefined\<close>.
\<close>

definition getProp :: "WeightsRecord \<Rightarrow> string \<Rightarrow> val option" where
  "getProp r k =
     (case map_of (own r) k of
        Some v \<Rightarrow> Some v
      | None \<Rightarrow>
          (case proto r of
             None \<Rightarrow> fromObjectPrototype None k
           | Some p \<Rightarrow>
               (case configGet p k of
                  Some x \<Rightarrow> Some (Prim x)
                | None \<Rightarrow> fromObjectPrototype (Some p) k)))"

text \<open>Truthiness, as \<^verbatim>\<open>!v\<close> tests it.\<close>

fun truthyPrim :: "prim \<Rightarrow> bool" where
  "truthyPrim (PStr s) = (s \<noteq> [])"
| "truthyPrim (PNum NaN) = False"
| "truthyPrim (PNum (Num x)) = (x \<noteq> 0)"
| "truthyPrim (PBool b) = b"

fun truthy :: "val \<Rightarrow> bool" where
  "truthy (Prim p) = truthyPrim p"
| "truthy _ = True"

text \<open>
  \<^verbatim>\<open>v.weight\<close> and \<^verbatim>\<open>v.enabled\<close>: a configuration object has the field or not; a
  function, a primitive and the root prototype have neither.
\<close>

fun weightOf :: "val \<Rightarrow> number option" where
  "weightOf (Cfg c) = weight c"
| "weightOf _ = None"

fun enabledOf :: "val \<Rightarrow> bool option" where
  "enabledOf (Cfg c) = enabled c"
| "enabledOf _ = None"

text \<open>
  The spread \<^verbatim>\<open>{...v}\<close> copies the own enumerable properties of \<open>v\<close>: the fields of a
  configuration object, the characters of a string, and nothing of a function, of
  another primitive or of the root prototype.
\<close>

fun spread :: "val \<Rightarrow> WeightConfig" where
  "spread (Cfg c) = c"
| "spread (Prim (PStr s)) = emptyConfig\<lparr> chars_wc := s \<rparr>"
| "spread _ = emptyConfig"

subsection \<open>Writing a property\<close>

text \<open>
  The setter of \<^verbatim>\<open>__proto__\<close> replaces the prototype when it is given an object and
  ignores a primitive. A function as prototype is not modelled: the setter is only
  ever given what stood under the own key \<^verbatim>\<open>__proto__\<close> of a weights record or its
  prototype, and no typed state has a function there and no action puts one there.
\<close>

fun setPrototype :: "val \<Rightarrow> WeightsRecord \<Rightarrow> WeightsRecord" where
  "setPrototype (Cfg c) r = r\<lparr> proto := Some c \<rparr>"
| "setPrototype ObjectPrototype r = r\<lparr> proto := None \<rparr>"
| "setPrototype _ r = r"

text \<open>
  The assignment \<^verbatim>\<open>rec[k] = v\<close>: an own property is overwritten in place; otherwise
  the key \<^verbatim>\<open>__proto__\<close> reaches the inherited setter and creates no property, and
  every other key becomes a new own property, last in order.
\<close>

definition assign :: "string \<Rightarrow> val \<Rightarrow> WeightsRecord \<Rightarrow> WeightsRecord" where
  "assign k v r =
     (if k = ''__proto__'' \<and> map_of (own r) k = None then setPrototype v r
      else r\<lparr> own := AList.update k v (own r) \<rparr>)"

text \<open>
  The object literal \<^verbatim>\<open>{...rec, [k]: v}\<close>: a fresh object with the root prototype,
  the own properties of \<open>rec\<close>, and \<open>k\<close> defined as an own property whatever its name.
\<close>

definition withEntry :: "WeightsRecord \<Rightarrow> string \<Rightarrow> val \<Rightarrow> WeightsRecord" where
  "withEntry r k v = \<lparr> own = AList.update k v (own r), proto = None \<rparr>"

section \<open>Data model of the filter store\<close>

record RangeFilter =
  min_r :: real
  max_r :: real
  enabled_r :: bool

record FilterState =
  weights :: WeightsRecord
  minScore :: real
  population :: RangeFilter
  searchQuery :: string
  departements :: "string list"
  regions :: "string list"
  categoriesLoaded :: bool

record FilterCategory =
  id_fc :: string
  name_fc :: string
  description_fc :: string
  icon_fc :: string
  unit_fc :: "string option"
  weightDefault :: number
  datasetId :: string

definition createDefaultFilterState :: FilterState where
  "createDefaultFilterState =
     \<lparr> weights = emptyRecord,
       minScore = 0,
       population = \<lparr> min_r = 0, max_r = 1000000, enabled_r = False \<rparr>,
       searchQuery = [],
       departements = [],
       regions = [],
       categoriesLoaded = False \<rparr>"

section \<open>Store actions\<close>

text \<open>
  Every action of the store is a function from the state before to the state after.
  An updater that returns the state it was given leaves the store as it is.
\<close>

definition initWeight :: "WeightsRecord \<Rightarrow> FilterCategory \<Rightarrow> WeightsRecord \<Rightarrow> WeightsRecord" where
  "initWeight currentWeights category newWeights =
     (case getProp currentWeights (id_fc category) of
        Some existing \<Rightarrow> assign (id_fc category) existing newWeights
      | None \<Rightarrow>
          assign (id_fc category)
            (Cfg \<lparr> id_wc = Some (id_fc category), weight = Some (weightDefault category),
                   enabled = Some True, chars_wc = [] \<rparr>)
            newWeights)"

definition initializeFromCategories :: "FilterCategory list \<Rightarrow> FilterState \<Rightarrow> FilterState" where
  "initializeFromCategories categories s =
     s\<lparr> weights := fold (initWeight (weights s)) categories emptyRecord,
        categoriesLoaded := True \<rparr>"

definition setWeight :: "string \<Rightarrow> number \<Rightarrow> FilterState \<Rightarrow> FilterState" where
  "setWeight filterId w s =
     (case getProp (weights s) filterId of
        None \<Rightarrow> s
      | Some v \<Rightarrow>
          if \<not> truthy v then s
          else s\<lparr> weights :=
                 withEntry (weights s) filterId
                   (Cfg ((spread v)\<lparr> weight := Some (mathMax (Num 0) (mathMin (Num 100) w)) \<rparr>)) \<rparr>)"

definition negated :: "bool option \<Rightarrow> bool" where
  "negated b = (case b of None \<Rightarrow> True | Some x \<Rightarrow> \<not> x)"

definition toggleFilter :: "string \<Rightarrow> FilterState \<Rightarrow> FilterState" where
  "toggleFilter filterId s =
     (case getProp (weights s) filterId of
        None \<Rightarrow> s
      | Some v \<Rightarrow>
          if \<not> truthy v then s
          else s\<lparr> weights :=
                 withEntry (weights s) filterId
                   (Cfg ((spread v)\<lparr> enabled := Some (negated (enabledOf v)) \<rparr>)) \<rparr>)"

definition setMinScore :: "real \<Rightarrow> FilterState \<Rightarrow> FilterState" where
  "setMinScore score s = s\<lparr> minScore := max 0 (min 100 score) \<rparr>"

definition setPopulationRange :: "real \<Rightarrow> real \<Rightarrow> FilterState \<Rightarrow> FilterState" where
  "setPopulationRange mn mx s =
     s\<lparr> population := (population s)\<lparr> min_r := max 0 mn, max_r := max mn mx \<rparr> \<rparr>"

definition togglePopulationFilter :: "FilterState \<Rightarrow> FilterState" where
  "togglePopulationFilter s =
     s\<lparr> population := (population s)\<lparr> enabled_r := \<not> enabled_r (population s) \<rparr> \<rparr>"

definition setSearchQuery :: "string \<Rightarrow> FilterState \<Rightarrow> FilterState" where
  "setSearchQuery query s = s\<lparr> searchQuery := query \<rparr>"

definition setDepartements :: "string list \<Rightarrow> FilterState \<Rightarrow> FilterState" where
  "setDepartements codes s = s\<lparr> departements := codes \<rparr>"

definition setRegions :: "string list \<Rightarrow> FilterState \<Rightarrow> FilterState" where
  "setRegions codes s = s\<lparr> regions := codes \<rparr>"

definition resetConfig :: "val \<Rightarrow> val" where
  "resetConfig config = Cfg ((spread config)\<lparr> weight := Some (Num 50), enabled := Some True \<rparr>)"

definition resetWeight :: "string \<times> val \<Rightarrow> WeightsRecord \<Rightarrow> WeightsRecord" where
  "resetWeight entry resetWeights = assign (fst entry) (resetConfig (snd entry)) resetWeights"

definition resetFilters :: "FilterState \<Rightarrow> FilterState" where
  "resetFilters s =
     s\<lparr> weights := fold resetWeight (own (weights s)) emptyRecord,
        minScore := 0,
        population := \<lparr> min_r = 0, max_r = 1000000, enabled_r = False \<rparr>,
        searchQuery := [],
        departements := [],
        regions := [] \<rparr>"

section \<open>Computed values of the store\<close>






text \<open>
  The actions of the store as data, to speak about every sequence of calls a client
  can make: \<open>dispatch\<close> applies one action, \<open>run\<close> a sequence, left to right.
\<close>

datatype action =
    InitializeFromCategories "FilterCategory list"
  | SetWeight string number
  | ToggleFilter string
  | SetMinScore real
  | SetPopulationRange real real
  | TogglePopulationFilter
  | SetSearchQuery string
  | SetDepartements "string list"
  | SetRegions "string list"
  | ResetFilters

fun dispatch :: "action \<Rightarrow> FilterState \<Rightarrow> FilterState" where
  "dispatch (InitializeFromCategories categories) s = initializeFromCategories categories s"
| "dispatch (SetWeight filterId w) s = setWeight filterId w s"
| "dispatch (ToggleFilter filterId) s = toggleFilter filterId s"
| "dispatch (SetMinScore score) s = setMinScore score s"
| "dispatch (SetPopulationRange mn mx) s = setPopulationRange mn mx s"
| "dispatch TogglePopulationFilter s = togglePopulationFilter s"
| "dispatch (SetSearchQuery query) s = setSearchQuery query s"
| "dispatch (SetDepartements codes) s = setDepartements codes s"
| "dispatch (SetRegions codes) s = setRegions codes s"
| "dispatch ResetFilters s = resetFilters s"

definition run :: "action list \<Rightarrow> FilterState \<Rightarrow> FilterState" where
  "run acts s = fold dispatch acts s"

text \<open>The properties of a store state that the claims speak about.\<close>

fun inRange :: "number \<Rightarrow> bool" where
  "inRange (Num x) = (0 \<le> x \<and> x \<le> 100)"
| "inRange NaN = False"

definition weightInRange :: "string \<times> val \<Rightarrow> bool" where
  "weightInRange entry = (case weightOf (snd entry) of None \<Rightarrow> False | Some w \<Rightarrow> inRange w)"

definition weights_in_range :: "FilterState \<Rightarrow> bool" where
  "weights_in_range s = list_all weightInRange (own (weights s))"

definition keys_distinct :: "FilterState \<Rightarrow> bool" where
  "keys_distinct s = distinct (map fst (own (weights s)))"


section \<open>Requests of the API client\<close>

text \<open>
  \<^verbatim>\<open>lib/api.ts\<close> builds the JSON body of the search request and of the filtered
  geometry request from a \<^verbatim>\<open>SearchFilters\<close> value. An optional field is an
  \<^typ>\<open>'a option\<close>, \<open>None\<close> for \<^verbatim>\<open>undefined\<close>. The expression \<^verbatim>\<open>x || d\<close> on a
  number yields \<open>d\<close> when \<open>x\<close> is undefined or zero. The weights are the record
  that \<^verbatim>\<open>getEnabledWeights\<close> returns.
\<close>

record Bounds =
  north :: real
  south :: real
  east :: real
  west :: real

record SearchFilters =
  weights_sf :: "(string \<times> number option) list"
  minScore_sf :: "real option"
  populationMin :: "real option"
  populationMax :: "real option"
  departements_sf :: "string list option"
  regions_sf :: "string list option"
  searchQuery_sf :: "string option"
  bounds :: "Bounds option"
  limit :: "real option"
  offset :: "real option"

record RequestBody =
  weights_b :: "(string \<times> number option) list"
  min_score :: "real option"
  population_min :: "real option"
  population_max :: "real option"
  departements_b :: "string list option"
  regions_b :: "string list option"
  search_query :: "string option"
  bounds_b :: "Bounds option"
  limit_b :: real
  offset_b :: real

definition orDefault :: "real option \<Rightarrow> real \<Rightarrow> real" where
  "orDefault x d = (case x of None \<Rightarrow> d | Some v \<Rightarrow> if v = 0 then d else v)"

definition searchCommunes_body :: "SearchFilters \<Rightarrow> RequestBody" where
  "searchCommunes_body filters =
     \<lparr> weights_b = weights_sf filters,
       min_score = minScore_sf filters,
       population_min = populationMin filters,
       population_max = populationMax filters,
       departements_b = departements_sf filters,
       regions_b = regions_sf filters,
       search_query = searchQuery_sf filters,
       bounds_b = bounds filters,
       limit_b = orDefault (limit filters) 50,
       offset_b = orDefault (offset filters) 0 \<rparr>"

text \<open>
  The second argument of \<^verbatim>\<open>searchGeoJSON\<close>, \<^verbatim>\<open>simplified\<close>, goes to the query string
  of the request and not to its body.
\<close>

definition searchGeoJSON_body :: "SearchFilters \<Rightarrow> RequestBody" where
  "searchGeoJSON_body filters =
     \<lparr> weights_b = weights_sf filters,
       min_score = minScore_sf filters,
       population_min = populationMin filters,
       population_max = populationMax filters,
       departements_b = departements_sf filters,
       regions_b = regions_sf filters,
       search_query = searchQuery_sf filters,
       bounds_b = bounds filters,
       limit_b = orDefault (limit filters) 500,
       offset_b = 0 \<rparr>"


section \<open>The map's style callback\<close>

text \<open>
  \<^verbatim>\<open>MapContainer\<close> colours each commune feature by its score. The callback reads
  \<^verbatim>\<open>feature?.properties\<close>, here a \<^typ>\<open>'a option\<close>, and within it the optional
  \<^verbatim>\<open>score_global\<close> and \<^verbatim>\<open>code_insee\<close>. The colour string \<^verbatim>\<open>rgb(r, g, b)\<close> of
  \<^verbatim>\<open>interpolateScoreColor\<close> (\<^verbatim>\<open>lib/utils.ts\<close>) is kept as its three components;
  \<^verbatim>\<open>Math.round\<close> rounds a half upwards. The renderer field of the style is the same
  object in every style and is left out.
\<close>

record ColorStop =
  pos_cs :: real
  r_cs :: int
  g_cs :: int
  b_cs :: int

datatype rgb = Rgb int int int

definition stops :: "ColorStop list" where
  "stops =
     [\<lparr> pos_cs = 0, r_cs = 239, g_cs = 68, b_cs = 68 \<rparr>,
      \<lparr> pos_cs = 25, r_cs = 249, g_cs = 115, b_cs = 22 \<rparr>,
      \<lparr> pos_cs = 50, r_cs = 234, g_cs = 179, b_cs = 8 \<rparr>,
      \<lparr> pos_cs = 75, r_cs = 132, g_cs = 204, b_cs = 22 \<rparr>,
      \<lparr> pos_cs = 100, r_cs = 34, g_cs = 197, b_cs = 94 \<rparr>]"

fun findStops :: "real \<Rightarrow> ColorStop list \<Rightarrow> (ColorStop \<times> ColorStop) option" where
  "findStops s (currentStop # nextStop # rest) =
     (if pos_cs currentStop \<le> s \<and> s \<le> pos_cs nextStop then Some (currentStop, nextStop)
      else findStops s (nextStop # rest))"
| "findStops s _ = None"

definition mathRound :: "real \<Rightarrow> int" where
  "mathRound x = \<lfloor>x + 1 / 2\<rfloor>"

definition interpolate :: "int \<Rightarrow> int \<Rightarrow> real \<Rightarrow> int" where
  "interpolate lo hi factor = mathRound (real_of_int lo + real_of_int (hi - lo) * factor)"

definition interpolateScoreColor :: "real \<Rightarrow> rgb" where
  "interpolateScoreColor score =
     (let s = max 0 (min 100 score);
          found = (case findStops s stops of
                     Some p \<Rightarrow> p
                   | None \<Rightarrow> (hd stops, last stops));
          lower = fst found;
          upper = snd found;
          range = pos_cs upper - pos_cs lower;
          factor = (if range > 0 then (s - pos_cs lower) / range else 0)
      in Rgb (interpolate (r_cs lower) (r_cs upper) factor)
             (interpolate (g_cs lower) (g_cs upper) factor)
             (interpolate (b_cs lower) (b_cs upper) factor))"

record PathStyle =
  fillColor :: rgb
  fillOpacity :: real
  color :: string
  weight_ps :: real
  opacity :: real

definition getFeatureStyle :: "real \<Rightarrow> bool \<Rightarrow> PathStyle" where
  "getFeatureStyle score isSelected =
     \<lparr> fillColor = interpolateScoreColor score,
       fillOpacity = (if isSelected then 0.85 else 0.55),
       color = (if isSelected then ''#1e293b'' else ''#64748b''),
       weight_ps = (if isSelected then 2 else 0.3),
       opacity = (if isSelected then 1 else 0.5) \<rparr>"

record FeatureProps =
  score_global :: "real option"
  code_insee :: "string option"

definition featureScore :: "FeatureProps option \<Rightarrow> real" where
  "featureScore props =
     (case props of
        None \<Rightarrow> 50
      | Some p \<Rightarrow> (case score_global p of None \<Rightarrow> 50 | Some v \<Rightarrow> v))"

definition featureSelected :: "FeatureProps option \<Rightarrow> string option \<Rightarrow> bool" where
  "featureSelected props selectedCode =
     (case props of
        None \<Rightarrow> False
      | Some p \<Rightarrow> (case code_insee p of None \<Rightarrow> False | Some c \<Rightarrow> selectedCode = Some c))"

definition featureStyle :: "FeatureProps option \<Rightarrow> string option \<Rightarrow> PathStyle" where
  "featureStyle props selectedCode =
     getFeatureStyle (featureScore props) (featureSelected props selectedCode)"

section \<open>The scoring engine\<close>

text \<open>
  Modelled from the spec: the scoring engine, \<^verbatim>\<open>score(commune, weightVector)\<close> of
  section 4.2. The service that computes the composite score runs behind the API and
  its code is not among the sources; these definitions follow the words of the
  specification. A commune carries the map from criterion id to normalized score,
  with no entry for a criterion whose dataset does not cover it.
\<close>

record Commune =
  codeInsee :: string
  nom :: string
  scores :: "(string \<times> real) list"

record ScoreResult =
  perCriterion :: "(string \<times> real) list"
  composite :: real

text \<open>
  Modelled from the spec: for each criterion id of the weight vector with weight above
  zero that the commune has a score for, the weighted score goes to the numerator
  and the weight to the denominator.
\<close>

definition accumulate :: "(string \<times> real) list \<Rightarrow> string \<times> real \<Rightarrow> real \<times> real \<Rightarrow> real \<times> real" where
  "accumulate sc entry acc =
     (if 0 < snd entry
      then (case map_of sc (fst entry) of
              Some v \<Rightarrow> (fst acc + snd entry * v, snd acc + snd entry)
            | None \<Rightarrow> acc)
      else acc)"

text \<open>
  Modelled from the spec: the composite is the weighted sum over the sum of weights,
  and the neutral midpoint 50 when that sum is zero; the per-criterion scores are the
  stored ones.
\<close>

definition score :: "Commune \<Rightarrow> (string \<times> real) list \<Rightarrow> ScoreResult" where
  "score commune weightVector =
     (let totals = fold (accumulate (scores commune)) weightVector (0, 0)
      in \<lparr> perCriterion = scores commune,
           composite = (if snd totals = 0 then 50 else fst totals / snd totals) \<rparr>)"

text \<open>
  The conditions on a commune's stored scores that the properties below speak about:
  a score is normalized when it lies in [0,100], the invariant of the data model, and
  the commune has no data for an entry of the weight vector when it stores no score
  under that criterion id.
\<close>

definition normalized :: "string \<times> real \<Rightarrow> bool" where
  "normalized entry = (0 \<le> snd entry \<and> snd entry \<le> 100)"

definition noData :: "Commune \<Rightarrow> string \<times> real \<Rightarrow> bool" where
  "noData commune entry = (map_of (scores commune) (fst entry) = None)"

section \<open>Ordinary use of the store\<close>

text \<open>
  The filter ids of the manifest are ordinary keys: none of them is a name that a
  plain object inherits. An ordinary action names ordinary keys only, gives
  \<^verbatim>\<open>setWeight\<close> a number that is not the not-a-number value, and gives
  \<^verbatim>\<open>initializeFromCategories\<close> default weights in [0,100]. An ordinary record has
  the root prototype, no own key \<^verbatim>\<open>__proto__\<close>, and a weight in [0,100] in every
  entry.
\<close>

definition ordinaryKey :: "string \<Rightarrow> bool" where
  "ordinaryKey k = (k \<notin> set inheritedNames \<and> k \<noteq> ''__proto__'')"

definition ordinaryCategory :: "FilterCategory \<Rightarrow> bool" where
  "ordinaryCategory c = (ordinaryKey (id_fc c) \<and> inRange (weightDefault c))"

fun ordinaryAction :: "action \<Rightarrow> bool" where
  "ordinaryAction (InitializeFromCategories cs) = list_all ordinaryCategory cs"
| "ordinaryAction (SetWeight k w) = (ordinaryKey k \<and> w \<noteq> NaN)"
| "ordinaryAction (ToggleFilter k) = ordinaryKey k"
| "ordinaryAction _ = True"

definition ordinaryRecord :: "WeightsRecord \<Rightarrow> bool" where
  "ordinaryRecord r =
     (list_all weightInRange (own r) \<and> proto r = None \<and> ''__proto__'' \<notin> fst ` set (own r))"

text \<open>
  What stands under the own key \<^verbatim>\<open>__proto__\<close> of a weights record, if anything, is a
  configuration object: \<open>setPrototype\<close> is never given a function.
\<close>

fun isCfg :: "val \<Rightarrow> bool" where
  "isCfg (Cfg c) = True"
| "isCfg _ = False"

definition protoKeyIsConfig :: "FilterState \<Rightarrow> bool" where
  "protoKeyIsConfig s =
     (case map_of (own (weights s)) ''__proto__'' of None \<Rightarrow> True | Some v \<Rightarrow> isCfg v)"


section \<open>Sample values\<close>

text \<open>Concrete states, action sequences and requests on which the theorems are run.\<close>

definition st1 :: FilterState where
  "st1 = createDefaultFilterState\<lparr> weights :=
     \<lparr> own = [(''climat'', weightConfig ''climat'' (Num 70) True),
              (''emploi'', weightConfig ''emploi'' (Num 40) False)],
       proto = None \<rparr> \<rparr>"


text \<open>A category whose id is a name that every plain object inherits.\<close>

definition categoryConstructor :: FilterCategory where
  "categoryConstructor =
     \<lparr> id_fc = ''constructor'', name_fc = ''Constructor'', description_fc = [], icon_fc = [],
       unit_fc = None, weightDefault = Num 50, datasetId = ''manifest'' \<rparr>"

definition filters1 :: SearchFilters where
  "filters1 =
     \<lparr> weights_sf = [(''climat'', Some (Num 70)), (''emploi'', Some (Num 0))],
       minScore_sf = Some 50,
       populationMin = Some 1000,
       populationMax = None,
       departements_sf = Some [''69''],
       regions_sf = None,
       searchQuery_sf = Some ''Lyon'',
       bounds = None,
       limit = Some 0,
       offset = Some 20 \<rparr>"


definition commune1 :: Commune where
  "commune1 = \<lparr> codeInsee = ''69123'', nom = ''Lyon'', scores = [(''climat'', 80), (''emploi'', 40)] \<rparr>"

definition props1 :: FeatureProps where
  "props1 = \<lparr> score_global = None, code_insee = Some ''69123'' \<rparr>"

section \<open>Association lists\<close>

lemma list_all_update:
  "list_all P al \<Longrightarrow> P (k, v) \<Longrightarrow> list_all P (AList.update k v al)"
  by (induction al) auto

lemma map_of_list_all:
  "list_all P al \<Longrightarrow> map_of al k = Some v \<Longrightarrow> P (k, v)"
  by (induction al) (auto split: if_splits)




lemma fold_update_distinct:
  "distinct (map fst acc) \<Longrightarrow> distinct (map fst (fold (\<lambda>e. AList.update (fst e) (g e)) xs acc))"
  by (induction xs arbitrary: acc) (simp_all add: AList.distinct_update)


section \<open>Assignments to a fresh record\<close>

lemma own_setPrototype: "own (setPrototype v r) = own r"
  by (cases v) simp_all

lemma own_assign:
  "own (assign k v r) =
     (if k = ''__proto__'' \<and> map_of (own r) k = None then own r else AList.update k v (own r))"
  by (auto simp: assign_def own_setPrototype)

lemma assign_distinct: "distinct (map fst (own r)) \<Longrightarrow> distinct (map fst (own (assign k v r)))"
  by (simp add: own_assign AList.distinct_update)

lemma assign_no_proto_key:
  "''__proto__'' \<notin> fst ` set (own r) \<Longrightarrow> ''__proto__'' \<notin> fst ` set (own (assign k v r))"
proof (cases "k = ''__proto__''")
  case True
  assume a: "''__proto__'' \<notin> fst ` set (own r)"
  then have "map_of (own r) ''__proto__'' = None" by (simp add: map_of_eq_None_iff)
  with True a show ?thesis by (simp add: own_assign)
next
  case False
  assume "''__proto__'' \<notin> fst ` set (own r)"
  with False show ?thesis by (simp add: own_assign AList.dom_update)
qed


section \<open>Invariants of the weights record\<close>

text \<open>
  The keys of the weights record are distinct in the initial state and stay so under
  every store action.
\<close>

lemma initWeight_distinct:
  "distinct (map fst (own acc)) \<Longrightarrow> distinct (map fst (own (initWeight cur c acc)))"
  by (simp add: initWeight_def assign_distinct split: option.splits)

lemma fold_initWeight_distinct:
  "distinct (map fst (own acc)) \<Longrightarrow> distinct (map fst (own (fold (initWeight cur) cs acc)))"
  by (induction cs arbitrary: acc) (simp_all add: initWeight_distinct)

lemma fold_resetWeight_distinct:
  "distinct (map fst (own acc)) \<Longrightarrow> distinct (map fst (own (fold resetWeight ws acc)))"
  by (induction ws arbitrary: acc) (simp_all add: resetWeight_def assign_distinct)

lemma dispatch_keys_distinct: "keys_distinct s \<Longrightarrow> keys_distinct (dispatch a s)"
  by (cases a)
     (simp_all add: keys_distinct_def initializeFromCategories_def fold_initWeight_distinct
        emptyRecord_def setWeight_def toggleFilter_def withEntry_def AList.distinct_update
        resetFilters_def fold_resetWeight_distinct setMinScore_def setPopulationRange_def
        togglePopulationFilter_def setSearchQuery_def setDepartements_def setRegions_def
        split: option.splits)

lemma run_keys_distinct: "keys_distinct s \<Longrightarrow> keys_distinct (run acts s)"
  unfolding run_def by (induction acts arbitrary: s) (simp_all add: dispatch_keys_distinct)

lemma default_keys_distinct: "keys_distinct createDefaultFilterState"
  by (simp add: keys_distinct_def createDefaultFilterState_def emptyRecord_def)

text \<open>
  No action stores anything but a configuration object under the own key
  \<^verbatim>\<open>__proto__\<close>.
\<close>

lemma fold_initWeight_no_proto_key:
  "''__proto__'' \<notin> fst ` set (own acc) \<Longrightarrow>
   ''__proto__'' \<notin> fst ` set (own (fold (initWeight cur) cs acc))"
  by (induction cs arbitrary: acc)
     (simp_all add: initWeight_def assign_no_proto_key split: option.splits)

lemma fold_resetWeight_no_proto_key:
  "''__proto__'' \<notin> fst ` set (own acc) \<Longrightarrow>
   ''__proto__'' \<notin> fst ` set (own (fold resetWeight es acc))"
  by (induction es arbitrary: acc) (simp_all add: resetWeight_def assign_no_proto_key)

lemma no_proto_key_config:
  "''__proto__'' \<notin> fst ` set (own (weights s)) \<Longrightarrow> protoKeyIsConfig s"
  by (simp add: protoKeyIsConfig_def map_of_eq_None_iff [THEN iffD2])

lemma dispatch_protoKeyIsConfig: "protoKeyIsConfig s \<Longrightarrow> protoKeyIsConfig (dispatch a s)"
proof (cases a)
  case (InitializeFromCategories cs)
  have "''__proto__'' \<notin> fst ` set (own (weights (initializeFromCategories cs s)))"
    by (simp add: initializeFromCategories_def fold_initWeight_no_proto_key emptyRecord_def)
  with InitializeFromCategories show ?thesis by (simp add: no_proto_key_config)
next
  case ResetFilters
  have "''__proto__'' \<notin> fst ` set (own (weights (resetFilters s)))"
    by (simp add: resetFilters_def fold_resetWeight_no_proto_key emptyRecord_def)
  with ResetFilters show ?thesis by (simp add: no_proto_key_config)
next
  case (SetWeight k w)
  assume "protoKeyIsConfig s"
  with SetWeight show ?thesis
    by (auto simp: protoKeyIsConfig_def setWeight_def withEntry_def AList.update_conv'
        split: option.splits)
next
  case (ToggleFilter k)
  assume "protoKeyIsConfig s"
  with ToggleFilter show ?thesis
    by (auto simp: protoKeyIsConfig_def toggleFilter_def withEntry_def AList.update_conv'
        split: option.splits)
qed (simp_all add: protoKeyIsConfig_def setMinScore_def setPopulationRange_def
      togglePopulationFilter_def setSearchQuery_def setDepartements_def setRegions_def)

lemma run_protoKeyIsConfig: "protoKeyIsConfig s \<Longrightarrow> protoKeyIsConfig (run acts s)"
  unfolding run_def by (induction acts arbitrary: s) (simp_all add: dispatch_protoKeyIsConfig)

section \<open>Unknown filter ids\<close>

lemma getProp_ordinary_unknown:
  "map_of (own r) k = None \<Longrightarrow> proto r = None \<Longrightarrow> ordinaryKey k \<Longrightarrow> getProp r k = None"
  by (simp add: getProp_def fromObjectPrototype_def ordinaryKey_def)

lemma unknown_ordinary_id_is_noop:
  assumes "map_of (own (weights s)) filterId = None" and "proto (weights s) = None"
    and "ordinaryKey filterId"
  shows "setWeight filterId w s = s \<and> toggleFilter filterId s = s"
  using getProp_ordinary_unknown [OF assms]
  by (simp add: setWeight_def toggleFilter_def)

text \<open>
  Claim C8. Calling \<^verbatim>\<open>setWeight\<close> or \<^verbatim>\<open>toggleFilter\<close> with a filter id that the
  weights record does not hold should leave the state unchanged. For an ordinary
  key it does (lemma \<open>unknown_ordinary_id_is_noop\<close>). For a name that the record
  inherits, the guard \<^verbatim>\<open>!state.weights[filterId]\<close> finds the inherited value and
  does not return: in the initial state, which holds no weights,
  \<^verbatim>\<open>setWeight('constructor', 80)\<close> creates the entry \<^verbatim>\<open>{weight: 80}\<close> and
  \<^verbatim>\<open>toggleFilter('toString')\<close> creates the entry \<^verbatim>\<open>{enabled: true}\<close>.
\<close>

theorem inherited_name_passes_guard:
  "map_of (own (weights createDefaultFilterState)) ''constructor'' = None
   \<and> own (weights (setWeight ''constructor'' (Num 80) createDefaultFilterState)) =
       [(''constructor'', Cfg \<lparr> id_wc = None, weight = Some (Num 80), enabled = None, chars_wc = [] \<rparr>)]
   \<and> setWeight ''constructor'' (Num 80) createDefaultFilterState \<noteq> createDefaultFilterState
   \<and> map_of (own (weights createDefaultFilterState)) ''toString'' = None
   \<and> own (weights (toggleFilter ''toString'' createDefaultFilterState)) =
       [(''toString'', Cfg \<lparr> id_wc = None, weight = None, enabled = Some True, chars_wc = [] \<rparr>)]
   \<and> toggleFilter ''toString'' createDefaultFilterState \<noteq> createDefaultFilterState"
  by (simp add: createDefaultFilterState_def emptyRecord_def setWeight_def toggleFilter_def
      getProp_def fromObjectPrototype_def inheritedNames_def withEntry_def emptyConfig_def
      negated_def)

section \<open>The weight vector sent with a request\<close>






section \<open>Reset\<close>











section \<open>Stored weights and the range from 0 to 100\<close>

lemma weightInRange_value: "weightInRange (k, v) \<Longrightarrow> weightInRange (k', v)"
  by (simp add: weightInRange_def)

lemma weightInRange_Cfg: "weightInRange (k, v) \<Longrightarrow> \<exists>c w. v = Cfg c \<and> weight c = Some w \<and> inRange w"
  by (cases v) (auto simp: weightInRange_def split: option.splits)

lemma clamp_inRange: "w \<noteq> NaN \<Longrightarrow> inRange (mathMax (Num 0) (mathMin (Num 100) w))"
  by (cases w) auto

lemma ordinaryKey_not_proto: "ordinaryKey k \<Longrightarrow> k \<noteq> ''__proto__''"
  by (simp add: ordinaryKey_def)

lemma withEntry_ordinary:
  assumes "ordinaryRecord r" "ordinaryKey k" "weightInRange (k, v)"
  shows "ordinaryRecord (withEntry r k v)"
  using assms ordinaryKey_not_proto [OF assms(2)]
  by (auto simp: ordinaryRecord_def withEntry_def list_all_update AList.dom_update)

lemma assign_ordinary:
  assumes "ordinaryRecord r" "ordinaryKey k" "weightInRange (k, v)"
  shows "ordinaryRecord (assign k v r)"
  using assms ordinaryKey_not_proto [OF assms(2)]
  by (auto simp: ordinaryRecord_def assign_def list_all_update AList.dom_update)

lemma setWeight_ordinary:
  assumes "ordinaryRecord (weights s)" "ordinaryKey k" "w \<noteq> NaN"
  shows "ordinaryRecord (weights (setWeight k w s))"
proof (cases "map_of (own (weights s)) k")
  case None
  with assms have "getProp (weights s) k = None"
    by (simp add: getProp_ordinary_unknown ordinaryRecord_def)
  with assms(1) show ?thesis by (simp add: setWeight_def)
next
  case (Some v)
  with assms(1) have "weightInRange (k, v)"
    unfolding ordinaryRecord_def by (blast intro: map_of_list_all)
  then obtain c where v: "v = Cfg c" using weightInRange_Cfg by blast
  have "weightInRange (k, Cfg (c\<lparr> weight := Some (mathMax (Num 0) (mathMin (Num 100) w)) \<rparr>))"
    using clamp_inRange [OF assms(3)] by (simp add: weightInRange_def)
  from withEntry_ordinary [OF assms(1,2) this] Some v show ?thesis
    by (simp add: setWeight_def getProp_def)
qed

lemma toggleFilter_ordinary:
  assumes "ordinaryRecord (weights s)" "ordinaryKey k"
  shows "ordinaryRecord (weights (toggleFilter k s))"
proof (cases "map_of (own (weights s)) k")
  case None
  with assms have "getProp (weights s) k = None"
    by (simp add: getProp_ordinary_unknown ordinaryRecord_def)
  with assms(1) show ?thesis by (simp add: toggleFilter_def)
next
  case (Some v)
  with assms(1) have wr: "weightInRange (k, v)"
    unfolding ordinaryRecord_def by (blast intro: map_of_list_all)
  then obtain c where v: "v = Cfg c" using weightInRange_Cfg by blast
  have "weightInRange (k, Cfg (c\<lparr> enabled := Some (negated (enabled c)) \<rparr>))"
    using wr v by (simp add: weightInRange_def)
  from withEntry_ordinary [OF assms(1,2) this] Some v show ?thesis
    by (simp add: toggleFilter_def getProp_def)
qed

lemma initWeight_ordinary:
  assumes "ordinaryRecord cur" "ordinaryCategory c" "ordinaryRecord acc"
  shows "ordinaryRecord (initWeight cur c acc)"
proof (cases "map_of (own cur) (id_fc c)")
  case None
  with assms(1,2) have g: "getProp cur (id_fc c) = None"
    by (simp add: getProp_ordinary_unknown ordinaryRecord_def ordinaryCategory_def)
  have "weightInRange (id_fc c, Cfg \<lparr> id_wc = Some (id_fc c), weight = Some (weightDefault c),
      enabled = Some True, chars_wc = [] \<rparr>)"
    using assms(2) by (simp add: weightInRange_def ordinaryCategory_def)
  from assign_ordinary [OF assms(3) _ this] assms(2) g show ?thesis
    by (simp add: initWeight_def ordinaryCategory_def)
next
  case (Some v)
  with assms(1) have "weightInRange (id_fc c, v)"
    unfolding ordinaryRecord_def by (blast intro: map_of_list_all)
  from assign_ordinary [OF assms(3) _ this] assms(2) Some show ?thesis
    by (simp add: initWeight_def getProp_def ordinaryCategory_def)
qed

lemma fold_initWeight_ordinary:
  "ordinaryRecord cur \<Longrightarrow> list_all ordinaryCategory cs \<Longrightarrow> ordinaryRecord acc \<Longrightarrow>
   ordinaryRecord (fold (initWeight cur) cs acc)"
  by (induction cs arbitrary: acc) (simp_all add: initWeight_ordinary)

lemma emptyRecord_ordinary: "ordinaryRecord emptyRecord"
  by (simp add: ordinaryRecord_def emptyRecord_def)

lemma resetWeight_ordinary:
  assumes "ordinaryRecord acc" "fst e \<noteq> ''__proto__''"
  shows "ordinaryRecord (resetWeight e acc)"
  using assms
  by (auto simp: ordinaryRecord_def resetWeight_def assign_def list_all_update AList.dom_update
      weightInRange_def resetConfig_def)

lemma fold_resetWeight_ordinary:
  "ordinaryRecord acc \<Longrightarrow> ''__proto__'' \<notin> fst ` set es \<Longrightarrow>
   ordinaryRecord (fold resetWeight es acc)"
  by (induction es arbitrary: acc) (auto simp: resetWeight_ordinary)

lemma dispatch_ordinary:
  assumes "ordinaryRecord (weights s)" "ordinaryAction a"
  shows "ordinaryRecord (weights (dispatch a s))"
proof (cases a)
  case (InitializeFromCategories cs)
  with assms show ?thesis
    by (simp add: initializeFromCategories_def fold_initWeight_ordinary emptyRecord_ordinary)
next
  case (SetWeight k w)
  with assms show ?thesis by (simp add: setWeight_ordinary)
next
  case (ToggleFilter k)
  with assms show ?thesis by (simp add: toggleFilter_ordinary)
next
  case ResetFilters
  from assms(1) have "''__proto__'' \<notin> fst ` set (own (weights s))"
    by (simp add: ordinaryRecord_def)
  with ResetFilters show ?thesis
    by (simp add: resetFilters_def fold_resetWeight_ordinary emptyRecord_ordinary)
qed (use assms(1) in \<open>simp_all add: setMinScore_def setPopulationRange_def
      togglePopulationFilter_def setSearchQuery_def setDepartements_def setRegions_def\<close>)

lemma run_ordinary:
  "ordinaryRecord (weights s) \<Longrightarrow> list_all ordinaryAction acts \<Longrightarrow>
   ordinaryRecord (weights (run acts s))"
  unfolding run_def by (induction acts arbitrary: s) (simp_all add: dispatch_ordinary)

lemma run_ordinary_in_range:
  "ordinaryRecord (weights s) \<Longrightarrow> list_all ordinaryAction acts \<Longrightarrow> weights_in_range (run acts s)"
  using run_ordinary [of s acts] by (simp add: ordinaryRecord_def weights_in_range_def)

text \<open>
  Claim C6. Every weight the store holds should lie in [0,100]. Under ordinary use
  it does (lemma \<open>run_ordinary_in_range\<close>). The clamp of \<^verbatim>\<open>setWeight\<close> lets the
  not-a-number value through: on a store that holds the weight 70 for
  \<^verbatim>\<open>climat\<close>, \<^verbatim>\<open>setWeight('climat', NaN)\<close> stores NaN. And for a name the record
  inherits, \<^verbatim>\<open>toggleFilter\<close> creates an entry that has no weight at all, and
  \<^verbatim>\<open>initializeFromCategories\<close> stores the inherited function in place of a
  configuration with the category's default weight.
\<close>

theorem setWeight_stores_nan:
  "weights_in_range st1
   \<and> map_of (own (weights (setWeight ''climat'' NaN st1))) ''climat'' = Some (weightConfig ''climat'' NaN True)
   \<and> \<not> weights_in_range (setWeight ''climat'' NaN st1)
   \<and> weights_in_range createDefaultFilterState
   \<and> \<not> weights_in_range (toggleFilter ''toString'' createDefaultFilterState)
   \<and> inRange (weightDefault categoryConstructor)
   \<and> own (weights (initializeFromCategories [categoryConstructor] createDefaultFilterState)) =
       [(''constructor'', Fn ''constructor'')]
   \<and> \<not> weights_in_range (initializeFromCategories [categoryConstructor] createDefaultFilterState)"
  by (simp add: st1_def createDefaultFilterState_def emptyRecord_def setWeight_def toggleFilter_def
      getProp_def fromObjectPrototype_def inheritedNames_def withEntry_def emptyConfig_def
      negated_def weights_in_range_def weightInRange_def weightConfig_def categoryConstructor_def
      initializeFromCategories_def initWeight_def assign_def)

section \<open>Population range\<close>

text \<open>
  Claim C3, as amended. \<^verbatim>\<open>setPopulationRange\<close> reports no error. Given a pair with
  the minimum above the maximum and the minimum not negative, it stores the range
  from the minimum to the minimum and changes nothing else in the store.
\<close>

theorem setPopulationRange_adjusts:
  assumes "mx < mn" and "0 \<le> mn"
  shows "setPopulationRange mn mx s =
           s\<lparr> population := \<lparr> min_r = mn, max_r = mn, enabled_r = enabled_r (population s) \<rparr> \<rparr>"
  using assms by (simp add: setPopulationRange_def max_def)

theorem setPopulationRange_adjusts_witness:
  "(5::real) < 10 \<and> (0::real) \<le> 10
   \<and> population (setPopulationRange 10 5 createDefaultFilterState) =
       \<lparr> min_r = 10, max_r = 10, enabled_r = False \<rparr>"
  using setPopulationRange_adjusts [of 5 10 createDefaultFilterState]
  by (simp add: createDefaultFilterState_def)

text \<open>
  Claim C3 as it was stated fails: given the minimum 10 and the maximum 5, the store
  holds the range from 10 to 10 afterwards, a well-formed range that is not the pair
  it was given.
\<close>

theorem setPopulationRange_silently_corrects_cex:
  "min_r (population (setPopulationRange 10 5 createDefaultFilterState)) = 10
   \<and> max_r (population (setPopulationRange 10 5 createDefaultFilterState)) = 10
   \<and> min_r (population (setPopulationRange 10 5 createDefaultFilterState))
       \<le> max_r (population (setPopulationRange 10 5 createDefaultFilterState))
   \<and> (min_r (population (setPopulationRange 10 5 createDefaultFilterState)),
       max_r (population (setPopulationRange 10 5 createDefaultFilterState))) \<noteq> (10, 5)"
  by (simp add: setPopulationRange_def createDefaultFilterState_def)

section \<open>Request bodies\<close>

text \<open>
  Claim C5. For every \<^verbatim>\<open>SearchFilters\<close> value, the body of the filtered geometry
  request and the body of the search request agree on the weights, the minimum
  score, both population bounds, the departement and region codes, the search query
  and the viewport bounds.
\<close>

theorem geojson_body_same_predicate:
  "weights_b (searchGeoJSON_body f) = weights_b (searchCommunes_body f)
   \<and> min_score (searchGeoJSON_body f) = min_score (searchCommunes_body f)
   \<and> population_min (searchGeoJSON_body f) = population_min (searchCommunes_body f)
   \<and> population_max (searchGeoJSON_body f) = population_max (searchCommunes_body f)
   \<and> departements_b (searchGeoJSON_body f) = departements_b (searchCommunes_body f)
   \<and> regions_b (searchGeoJSON_body f) = regions_b (searchCommunes_body f)
   \<and> search_query (searchGeoJSON_body f) = search_query (searchCommunes_body f)
   \<and> bounds_b (searchGeoJSON_body f) = bounds_b (searchCommunes_body f)"
  by (simp add: searchGeoJSON_body_def searchCommunes_body_def)

theorem geojson_body_same_predicate_witness:
  "weights_b (searchGeoJSON_body filters1) = [(''climat'', Some (Num 70)), (''emploi'', Some (Num 0))]
   \<and> weights_b (searchCommunes_body filters1) = [(''climat'', Some (Num 70)), (''emploi'', Some (Num 0))]
   \<and> search_query (searchGeoJSON_body filters1) = search_query (searchCommunes_body filters1)
   \<and> limit_b (searchGeoJSON_body filters1) \<noteq> limit_b (searchCommunes_body filters1)"
  using geojson_body_same_predicate [of filters1]
  by (simp add: filters1_def searchGeoJSON_body_def searchCommunes_body_def orDefault_def)

text \<open>
  Claim C10. When the caller's limit is undefined or 0, the search request carries the
  limit 50 and the filtered geometry request the limit 500; neither request ever
  carries the limit 0; the filtered geometry request always carries the offset 0.
\<close>

theorem pagination_defaults:
  "(limit f = None \<or> limit f = Some 0 \<longrightarrow>
      limit_b (searchCommunes_body f) = 50 \<and> limit_b (searchGeoJSON_body f) = 500)
   \<and> limit_b (searchCommunes_body f) \<noteq> 0
   \<and> limit_b (searchGeoJSON_body f) \<noteq> 0
   \<and> offset_b (searchGeoJSON_body f) = 0"
  by (auto simp: searchGeoJSON_body_def searchCommunes_body_def orDefault_def split: option.splits)

theorem pagination_defaults_witness:
  "limit filters1 = Some 0
   \<and> limit_b (searchCommunes_body filters1) = 50
   \<and> limit_b (searchGeoJSON_body filters1) = 500
   \<and> offset filters1 = Some 20
   \<and> offset_b (searchCommunes_body filters1) = 20
   \<and> offset_b (searchGeoJSON_body filters1) = 0"
  using pagination_defaults [of filters1]
  by (simp add: filters1_def searchGeoJSON_body_def searchCommunes_body_def orDefault_def)

section \<open>The search filters assembled from the store\<close>




section \<open>Missing data\<close>

lemma accumulate_noData: "noData c e \<Longrightarrow> accumulate (scores c) e acc = acc"
  by (simp add: accumulate_def noData_def)

lemma fold_accumulate_noData:
  "list_all (noData c) wv \<Longrightarrow> fold (accumulate (scores c)) wv acc = acc"
  by (induction wv arbitrary: acc) (simp_all add: accumulate_noData)

lemma interpolateScoreColor_50: "interpolateScoreColor 50 = Rgb 234 179 8"
  by (simp add: interpolateScoreColor_def stops_def interpolate_def mathRound_def Let_def)

text \<open>
  Claim C1. A commune that has no score for any criterion of the weight vector gets
  the composite score 50. In the map's style callback, a feature without properties,
  or whose properties carry no \<^verbatim>\<open>score_global\<close>, is styled with the score 50: its
  style is the one of a feature with score 50, with the fill colour of the midpoint.
\<close>

theorem missing_data_scores_neutral:
  "(list_all (noData c) wv \<longrightarrow> composite (score c wv) = 50)
   \<and> featureScore None = 50
   \<and> (score_global p = None \<longrightarrow>
        featureScore (Some p) = 50
        \<and> featureStyle (Some p) sel = getFeatureStyle 50 (featureSelected (Some p) sel)
        \<and> fillColor (featureStyle (Some p) sel) = Rgb 234 179 8)"
  by (simp add: score_def fold_accumulate_noData featureScore_def featureStyle_def
      getFeatureStyle_def interpolateScoreColor_50)

theorem missing_data_scores_neutral_witness:
  "list_all (noData commune1) [(''air'', 60), (''mer'', 30)]
   \<and> composite (score commune1 [(''air'', 60), (''mer'', 30)]) = 50
   \<and> score_global props1 = None
   \<and> featureScore (Some props1) = 50
   \<and> fillColor (featureStyle (Some props1) (Some ''69123'')) = Rgb 234 179 8
   \<and> fillOpacity (featureStyle (Some props1) (Some ''69123'')) = 0.85"
  using missing_data_scores_neutral [of commune1 "[(''air'', 60), (''mer'', 30)]" props1 "Some ''69123''"]
  by (simp add: commune1_def props1_def noData_def featureStyle_def getFeatureStyle_def
      featureSelected_def featureScore_def)

section \<open>The composite score stays within 0 and 100\<close>

lemma accumulate_bounds:
  assumes "list_all normalized sc" "0 \<le> fst acc" "fst acc \<le> 100 * snd acc" "0 \<le> snd acc"
  shows "0 \<le> fst (accumulate sc e acc) \<and> fst (accumulate sc e acc) \<le> 100 * snd (accumulate sc e acc)
       \<and> snd acc \<le> snd (accumulate sc e acc)"
proof (cases "0 < snd e")
  case False
  with assms show ?thesis by (simp add: accumulate_def)
next
  case True
  show ?thesis
  proof (cases "map_of sc (fst e)")
    case None
    with assms show ?thesis by (simp add: accumulate_def)
  next
    case (Some v)
    with assms(1) have "normalized (fst e, v)" by (rule map_of_list_all)
    then have v: "0 \<le> v" "v \<le> 100" by (simp_all add: normalized_def)
    from True v have nn: "0 \<le> snd e * v" by simp
    from True v have "snd e * v \<le> snd e * 100" by (simp add: mult_left_mono)
    then have le: "snd e * v \<le> 100 * snd e" by (simp only: mult.commute)
    have eq: "accumulate sc e acc = (fst acc + snd e * v, snd acc + snd e)"
      using True Some by (simp add: accumulate_def)
    have "0 \<le> fst acc + snd e * v" using nn assms(2) by linarith
    moreover have "fst acc + snd e * v \<le> 100 * (snd acc + snd e)"
      using add_mono [OF assms(3) le] by (simp only: distrib_left)
    moreover have "snd acc \<le> snd acc + snd e" using True by linarith
    ultimately show ?thesis by (simp only: eq fst_conv snd_conv)
  qed
qed

lemma accumulate_grows:
  "0 < snd e \<Longrightarrow> map_of sc (fst e) = Some v \<Longrightarrow> snd acc < snd (accumulate sc e acc)"
  by (simp add: accumulate_def)

lemma fold_accumulate_bounds:
  assumes "list_all normalized sc" "0 \<le> fst acc" "fst acc \<le> 100 * snd acc" "0 \<le> snd acc"
  shows "0 \<le> fst (fold (accumulate sc) wv acc)
       \<and> fst (fold (accumulate sc) wv acc) \<le> 100 * snd (fold (accumulate sc) wv acc)
       \<and> snd acc \<le> snd (fold (accumulate sc) wv acc)"
  using assms(2-)
proof (induction wv arbitrary: acc)
  case Nil
  then show ?case by simp
next
  case (Cons e wv)
  from accumulate_bounds [OF assms(1) Cons.prems, of e]
  have a: "0 \<le> fst (accumulate sc e acc)"
    "fst (accumulate sc e acc) \<le> 100 * snd (accumulate sc e acc)"
    "snd acc \<le> snd (accumulate sc e acc)" by simp_all
  with Cons.prems have "0 \<le> snd (accumulate sc e acc)" by simp
  from Cons.IH [OF a(1) a(2) this] a(3) show ?case by simp
qed

lemma fold_accumulate_positive:
  assumes "list_all normalized sc" "0 \<le> fst acc" "fst acc \<le> 100 * snd acc" "0 \<le> snd acc"
    and "e \<in> set wv" "0 < snd e" "map_of sc (fst e) = Some v"
  shows "0 < snd (fold (accumulate sc) wv acc)"
  using assms(2-5)
proof (induction wv arbitrary: acc)
  case Nil
  then show ?case by simp
next
  case (Cons x wv)
  from accumulate_bounds [OF assms(1) Cons.prems(1-3), of x]
  have a: "0 \<le> fst (accumulate sc x acc)"
    "fst (accumulate sc x acc) \<le> 100 * snd (accumulate sc x acc)"
    "snd acc \<le> snd (accumulate sc x acc)" by simp_all
  with Cons.prems have nn: "0 \<le> snd (accumulate sc x acc)" by simp
  show ?case
  proof (cases "x = e")
    case True
    with accumulate_grows [OF assms(6,7), of acc] Cons.prems(3)
    have "0 < snd (accumulate sc x acc)" by simp
    with fold_accumulate_bounds [OF assms(1) a(1) a(2) nn, of wv] show ?thesis by simp
  next
    case False
    with Cons.prems(4) have "e \<in> set wv" by simp
    from Cons.IH [OF a(1) a(2) nn this] show ?thesis by simp
  qed
qed

text \<open>
  Claim C2. When the weight vector has a criterion with weight above zero that the
  commune has a score for, and the commune's stored scores are normalized (each in
  [0,100], the invariant of the data model), the composite score lies in [0,100].
\<close>

theorem composite_in_range:
  assumes "list_all normalized (scores c)"
    and "(cid, w) \<in> set wv" and "0 < w" and "map_of (scores c) cid = Some v"
  shows "0 \<le> composite (score c wv) \<and> composite (score c wv) \<le> 100"
proof -
  let ?t = "fold (accumulate (scores c)) wv (0, 0)"
  have b: "0 \<le> fst ?t" "fst ?t \<le> 100 * snd ?t"
    using fold_accumulate_bounds [OF assms(1), of "(0, 0)" wv] by simp_all
  have p: "0 < snd ?t"
    using fold_accumulate_positive [OF assms(1) _ _ _ assms(2), of "(0, 0)" v] assms(3,4) by simp
  from b p have "0 \<le> fst ?t / snd ?t" by simp
  moreover from b p have "fst ?t / snd ?t \<le> 100" by (simp add: pos_divide_le_eq)
  ultimately show ?thesis using p by (simp add: score_def Let_def)
qed

theorem composite_in_range_witness:
  "list_all normalized (scores commune1)
   \<and> (''climat'', 30) \<in> set [(''air'', 60), (''climat'', 30), (''emploi'', 10)]
   \<and> map_of (scores commune1) ''climat'' = Some 80
   \<and> composite (score commune1 [(''air'', 60), (''climat'', 30), (''emploi'', 10)]) = 70
   \<and> 0 \<le> composite (score commune1 [(''air'', 60), (''climat'', 30), (''emploi'', 10)])
   \<and> composite (score commune1 [(''air'', 60), (''climat'', 30), (''emploi'', 10)]) \<le> 100"
  using composite_in_range [of commune1 "''climat''" 30 "[(''air'', 60), (''climat'', 30), (''emploi'', 10)]" 80]
  by (simp add: commune1_def normalized_def score_def accumulate_def)

end
